theory Spec2Isabelle
  imports Complex_Main
begin

section \<open>Values, errors and library operations\<close>

text \<open>
  The module \<^verbatim>\<open>anomalydetection.py\<close> keeps its pipeline state in module-level
  globals and mutates them in place. The embedding passes that state explicitly. A Python
  exception is a value \<open>Inl e\<close>; since in-place mutations made before a raise persist, every
  function returns the updated state next to its result, also when the result is an error.

  Field values have the types the callers send: an integer sequence, a string symbol, and
  Python floats for price and size; a key may be absent, which is what the code can observe
  as \<^verbatim>\<open>KeyError\<close>. A float is modelled by the real number it denotes. Comparisons
  of floats are exact. The subtraction and the division of line 50 round their results to
  the nearest double (\<open>fl\<close> below), and the literal \<^verbatim>\<open>0.05\<close> of line 29 is the double
  nearest to 1/20. The statistics of the scorer (\<open>np_mean\<close>, \<open>np_std\<close>) are taken exact.
\<close>

datatype py_error =
    KeyError string
  | TypeError
  | ZeroDivisionError
  | ValueError

type_synonym 'a result = "py_error + 'a"

text \<open>
  \<^verbatim>\<open>trade_data\<close> is a dict. Each of the keys the code reads is present (\<open>Some\<close>) or
  absent (\<open>None\<close>); \<^verbatim>\<open>anomalies\<close> is the key that line 111 stores.
\<close>

record trade_data =
  sequence :: "int option"
  symbol :: "string option"
  price :: "real option"
  size_field :: "real option"
  anomalies :: "string list option"

text \<open>What \<^verbatim>\<open>json.loads\<close> returns, or what the caller passes already decoded: a dict, or
  any other value (list, number, string, null), on which subscripting with a string raises
  \<^verbatim>\<open>TypeError\<close>.\<close>

datatype json_value = JObject trade_data | JOther

datatype raw_trade_data = Str string | Decoded json_value

text \<open>The result of a numpy division: numpy does not raise on a zero divisor, it yields
  \<^verbatim>\<open>nan\<close> or an infinity (with a warning).\<close>

datatype float64 = Finite real | PosInf | NegInf | NaN

definition np_true_divide :: "real \<Rightarrow> real \<Rightarrow> float64" where
  "np_true_divide x y =
     (if y \<noteq> 0 then Finite (x / y)
      else if x = 0 then NaN
      else if 0 < x then PosInf else NegInf)"

definition np_mean :: "real list \<Rightarrow> real" where
  "np_mean xs = sum_list xs / real (length xs)"

definition np_std :: "real list \<Rightarrow> real" where
  "np_std xs = sqrt (sum_list (map (\<lambda>x. (x - np_mean xs)\<^sup>2) xs) / real (length xs))"

text \<open>
  Rounding to double precision: to the nearest number with a 53-bit significand, ties to
  the even significand. \<open>pow2 e\<close> is the power of two with an integer exponent, the
  exponent of \<open>x\<close> is \<open>\<lfloor>log 2 \<bar>x\<bar>\<rfloor>\<close>, and the significand is rounded as an integer. The
  exponent range of a double (overflow to infinity, subnormal numbers) is not modelled.
\<close>

definition pow2 :: "int \<Rightarrow> real" where
  "pow2 e = (if 0 \<le> e then 2 ^ nat e else 1 / 2 ^ nat (- e))"

definition round_half_even :: "real \<Rightarrow> int" where
  "round_half_even y =
     (let n = \<lfloor>y\<rfloor>; r = y - of_int n
      in if r < 1 / 2 then n
         else if 1 / 2 < r then n + 1
         else if even n then n else n + 1)"

definition fl :: "real \<Rightarrow> real" where
  "fl x =
     (if x = 0 then 0
      else (let e = \<lfloor>log 2 \<bar>x\<bar>\<rfloor>
            in of_int (round_half_even (x * pow2 (52 - e))) * pow2 (e - 52)))"

text \<open>\<^verbatim>\<open>defaultdict.__getitem__\<close>: a missing key is inserted with the default value,
  which is then returned.\<close>

definition defaultdict_getitem :: "'v \<Rightarrow> ('k \<rightharpoonup> 'v) \<Rightarrow> 'k \<Rightarrow> 'v \<times> ('k \<rightharpoonup> 'v)" where
  "defaultdict_getitem dflt d k =
     (case d k of
        Some v \<Rightarrow> (v, d)
      | None \<Rightarrow> (dflt, d(k \<mapsto> dflt)))"

text \<open>The value a lookup would give, without the insertion.\<close>

definition effective :: "'v \<Rightarrow> ('k \<rightharpoonup> 'v) \<Rightarrow> 'k \<Rightarrow> 'v" where
  "effective dflt d k = (case d k of Some v \<Rightarrow> v | None \<Rightarrow> dflt)"

text \<open>\<^verbatim>\<open>deque(maxlen=n).append\<close>: append on the right, then drop the leftmost entry if
  the length exceeds \<open>n\<close>.\<close>

definition deque_append :: "nat \<Rightarrow> 'a list \<Rightarrow> 'a \<Rightarrow> 'a list" where
  "deque_append maxlen dq x =
     (let dq' = dq @ [x] in if maxlen < length dq' then tl dq' else dq')"

text \<open>
  The \<^verbatim>\<open>IsolationForest\<close> of scikit-learn is not code of this module. Its two methods
  are parameters: \<open>fit\<close> takes the model object and the training column and returns the
  fitted object or raises, \<open>decision_function\<close> takes the object and one sample and returns
  its score or raises. Nothing is assumed about either.
\<close>

record 'm forest_api =
  fit :: "'m \<Rightarrow> float64 list \<Rightarrow> 'm result"
  decision_function :: "'m \<Rightarrow> float64 \<Rightarrow> real result"

section \<open>The detectors\<close>

text \<open>Lines 38-39. The left operand \<^verbatim>\<open>trade_data["size"]\<close> is evaluated first, then the
  subscript \<^verbatim>\<open>trade_data['symbol']\<close>, then the defaultdict lookup.\<close>

definition high_volume_rule ::
  "trade_data \<Rightarrow> (string \<rightharpoonup> real) \<Rightarrow> bool result \<times> (string \<rightharpoonup> real)" where
  "high_volume_rule trade high_volume_threshold =
     (case size_field trade of
        None \<Rightarrow> (Inl (KeyError ''size''), high_volume_threshold)
      | Some sz \<Rightarrow>
     (case symbol trade of
        None \<Rightarrow> (Inl (KeyError ''symbol''), high_volume_threshold)
      | Some symb \<Rightarrow>
          (let (thr, high_volume_threshold') =
                 defaultdict_getitem 10000 high_volume_threshold symb
           in (Inr (thr < sz), high_volume_threshold'))))"

text \<open>Lines 41-54. \<^verbatim>\<open>history[symbol]\<close> creates the empty deque of a new symbol. The
  division of line 50 is a Python division: it raises on a zero divisor, before the append
  of line 52. Its operands are floats, so the difference is rounded and then the quotient;
  the absolute value and the comparison of line 54 are exact. The default threshold is the
  float \<^verbatim>\<open>0.05\<close>.\<close>

definition rapid_price_change ::
  "trade_data \<Rightarrow> (string \<rightharpoonup> real list) \<Rightarrow> (string \<rightharpoonup> real) \<Rightarrow>
     bool result \<times> (string \<rightharpoonup> real list) \<times> (string \<rightharpoonup> real)" where
  "rapid_price_change trade history rapid_price_change_threshold =
     (case symbol trade of
        None \<Rightarrow> (Inl (KeyError ''symbol''), history, rapid_price_change_threshold)
      | Some symb \<Rightarrow>
     (case price trade of
        None \<Rightarrow> (Inl (KeyError ''price''), history, rapid_price_change_threshold)
      | Some current_price \<Rightarrow>
          (let (dq, history1) = defaultdict_getitem [] history symb in
           if dq = [] then
             (Inr False, history1(symb \<mapsto> deque_append 100 dq current_price),
              rapid_price_change_threshold)
           else
             (let last_price = last dq in
              if last_price = 0 then
                (Inl ZeroDivisionError, history1, rapid_price_change_threshold)
              else
                (let price_change = \<bar>fl (fl (current_price - last_price) / last_price)\<bar>;
                     history2 = history1(symb \<mapsto> deque_append 100 dq current_price);
                     (thr, rapid_price_change_threshold') =
                        defaultdict_getitem (fl 0.05) rapid_price_change_threshold symb
                 in (Inr (thr < price_change), history2, rapid_price_change_threshold'))))))"

text \<open>Lines 56-77. The scorer works on the corpus list it is given and on the globals
  \<^verbatim>\<open>is_fitted\<close> and \<^verbatim>\<open>isolation_forest\<close>; all three are returned.\<close>

definition isolation_forest_anomaly ::
  "'m forest_api \<Rightarrow> trade_data \<Rightarrow> real list \<Rightarrow> bool \<Rightarrow> 'm \<Rightarrow>
     bool result \<times> real list \<times> bool \<times> 'm" where
  "isolation_forest_anomaly api trade fit_prices fitted forest =
     (case price trade of
        None \<Rightarrow> (Inl (KeyError ''price''), fit_prices, fitted, forest)
      | Some current_price \<Rightarrow>
          (let fit_prices1 = fit_prices @ [current_price] in
           if length fit_prices1 < 100 then (Inr False, fit_prices1, fitted, forest)
           else
             (let prices_reshaped =
                    map (\<lambda>x. np_true_divide (x - np_mean fit_prices1) (np_std fit_prices1))
                      fit_prices1;
                  refit =
                    (if length fit_prices1 mod 1000 = 0 then
                       (case fit api forest prices_reshaped of
                          Inl e \<Rightarrow> Inl e
                        | Inr forest' \<Rightarrow> Inr (forest', True))
                     else Inr (forest, fitted))
              in case refit of
                   Inl e \<Rightarrow> (Inl e, fit_prices1, fitted, forest)
                 | Inr (forest1, fitted1) \<Rightarrow>
                     if \<not> fitted1 then (Inr False, fit_prices1, fitted1, forest1)
                     else
                       (let current_price_normalized =
                              np_true_divide (current_price - np_mean fit_prices1)
                                (np_std fit_prices1)
                        in case decision_function api forest1 current_price_normalized of
                             Inl e \<Rightarrow> (Inl e, fit_prices1, fitted1, forest1)
                           | Inr score \<Rightarrow> (Inr (score < 0), fit_prices1, fitted1, forest1)))))"

section \<open>The pipeline\<close>

text \<open>A message handed to the producer (lines 116-120): the key is the sequence (the code
  sends its string form) and the value is the trade dict with its \<^verbatim>\<open>anomalies\<close>.\<close>

record message =
  msg_key :: int
  msg_value :: trade_data

datatype log_line = FailedToParse raw_trade_data | AnomalyDetected trade_data

record 'm state =
  high_volume_threshold :: "string \<rightharpoonup> real"
  rapid_price_change_threshold :: "string \<rightharpoonup> real"
  transaction_history :: "string \<rightharpoonup> real list"
  fit_prices_all :: "real list"
  is_fitted :: bool
  isolation_forest :: 'm
  processed_sequence :: "int set"
  produced :: "message list"
  printed :: "log_line list"

text \<open>Lines 95-108: the three detectors in order, each on the globals, the labels
  accumulated. An exception leaves the state as mutated so far.\<close>

definition run_detectors ::
  "'m forest_api \<Rightarrow> trade_data \<Rightarrow> 'm state \<Rightarrow> string list result \<times> 'm state" where
  "run_detectors api trade st =
     (let (r1, hvt) = high_volume_rule trade (high_volume_threshold st);
          st1 = st\<lparr>high_volume_threshold := hvt\<rparr>
      in case r1 of
           Inl e \<Rightarrow> (Inl e, st1)
         | Inr b1 \<Rightarrow>
     (let (r2, hist, rpct) =
            rapid_price_change trade (transaction_history st1)
              (rapid_price_change_threshold st1);
          st2 = st1\<lparr>transaction_history := hist, rapid_price_change_threshold := rpct\<rparr>
      in case r2 of
           Inl e \<Rightarrow> (Inl e, st2)
         | Inr b2 \<Rightarrow>
     (let (r3, fp, fitted, forest) =
            isolation_forest_anomaly api trade (fit_prices_all st2) (is_fitted st2)
              (isolation_forest st2);
          st3 = st2\<lparr>fit_prices_all := fp, is_fitted := fitted, isolation_forest := forest\<rparr>
      in case r3 of
           Inl e \<Rightarrow> (Inl e, st3)
         | Inr b3 \<Rightarrow>
             (Inr ((if b1 then [''High Volume''] else []) @
                   (if b2 then [''Rapid Price Change''] else []) @
                   (if b3 then [''Isolation Forest''] else [])), st3))))"

text \<open>Lines 110-120: a trade with at least one label is printed and produced. The producer
  is taken to accept the message.\<close>

definition publish :: "int \<Rightarrow> trade_data \<Rightarrow> string list \<Rightarrow> 'm state \<Rightarrow> 'm state" where
  "publish seq trade labels st =
     (if labels = [] then st
      else
        (let trade' = trade\<lparr>anomalies := Some labels\<rparr>
         in st\<lparr>printed := printed st @ [AnomalyDetected trade'],
               produced := produced st @ [\<lparr>msg_key = seq, msg_value = trade'\<rparr>]\<rparr>))"

text \<open>Lines 28-36: the globals at import time. The thresholds and histories are empty
  defaultdicts, and \<open>forest\<close> is the estimator object constructed at line 34.\<close>

definition init_state :: "'m \<Rightarrow> 'm state" where
  "init_state forest =
     \<lparr>high_volume_threshold = Map.empty,
      rapid_price_change_threshold = Map.empty,
      transaction_history = Map.empty,
      fit_prices_all = [],
      is_fitted = False,
      isolation_forest = forest,
      processed_sequence = {},
      produced = [],
      printed = []\<rparr>"

text \<open>Line 82: a \<^verbatim>\<open>str\<close> payload goes through \<^verbatim>\<open>json.loads\<close>, anything else is taken
  as it is. \<open>loads\<close> is \<^verbatim>\<open>json.loads\<close>, \<open>None\<close> when it raises
  \<^verbatim>\<open>JSONDecodeError\<close>.\<close>

definition decode :: "(string \<Rightarrow> json_value option) \<Rightarrow> raw_trade_data \<Rightarrow> json_value option" where
  "decode loads raw = (case raw of Str s \<Rightarrow> loads s | Decoded j \<Rightarrow> Some j)"

text \<open>Lines 79-120. \<^verbatim>\<open>JSONDecodeError\<close> is the only exception the function catches.\<close>

definition process_trade ::
  "(string \<Rightarrow> json_value option) \<Rightarrow> 'm forest_api \<Rightarrow> raw_trade_data \<Rightarrow> 'm state \<Rightarrow>
     unit result \<times> 'm state" where
  "process_trade loads api raw st =
     (case decode loads raw of
        None \<Rightarrow> (Inr (), st\<lparr>printed := printed st @ [FailedToParse raw]\<rparr>)
      | Some JOther \<Rightarrow> (Inl TypeError, st)
      | Some (JObject trade) \<Rightarrow>
          (case sequence trade of
             None \<Rightarrow> (Inl (KeyError ''sequence''), st)
           | Some seq \<Rightarrow>
               if seq \<in> processed_sequence st then (Inr (), st)
               else
                 (let st0 = st\<lparr>processed_sequence := insert seq (processed_sequence st)\<rparr>;
                      (r, st3) = run_detectors api trade st0
                  in case r of
                       Inl e \<Rightarrow> (Inl e, st3)
                     | Inr labels \<Rightarrow> (Inr (), publish seq trade labels st3))))"

text \<open>Lines 124-131: the stream applies \<^verbatim>\<open>process_trade\<close> to each message in turn.
  The globals are as each call left them, whether it returned or raised.\<close>

fun process_stream ::
  "(string \<Rightarrow> json_value option) \<Rightarrow> 'm forest_api \<Rightarrow> raw_trade_data list \<Rightarrow> 'm state \<Rightarrow>
     'm state" where
  "process_stream loads api [] st = st"
| "process_stream loads api (raw # raws) st =
     process_stream loads api raws (snd (process_trade loads api raw st))"

text \<open>The number of messages produced so far with a given key.\<close>

definition emitted :: "int \<Rightarrow> 'm state \<Rightarrow> nat" where
  "emitted S st = length (filter (\<lambda>m. msg_key m = S) (produced st))"

section \<open>Sample inputs\<close>

text \<open>A dict with the four keys of a trade.\<close>

definition mk_trade :: "int \<Rightarrow> string \<Rightarrow> real \<Rightarrow> real \<Rightarrow> trade_data" where
  "mk_trade q s p z =
     \<lparr>sequence = Some q, symbol = Some s, price = Some p, size_field = Some z,
      anomalies = None\<rparr>"

text \<open>A dict with only the key \<^verbatim>\<open>sequence\<close>.\<close>

definition only_sequence :: "int \<Rightarrow> trade_data" where
  "only_sequence q =
     \<lparr>sequence = Some q, symbol = None, price = None, size_field = None, anomalies = None\<rparr>"

text \<open>\<^verbatim>\<open>json.loads\<close> on the texts used below: \<^verbatim>\<open>[]\<close> decodes to a list, and
  any other text of the examples is not JSON.\<close>

definition sample_loads :: "string \<Rightarrow> json_value option" where
  "sample_loads s = (if s = ''[]'' then Some JOther else None)"

text \<open>An estimator that refuses non-finite input with \<^verbatim>\<open>ValueError\<close> and gives every
  finite sample a negative score, so that it flags whatever it is asked to score.\<close>

definition strict_forest :: "unit forest_api" where
  "strict_forest =
     \<lparr>fit = (\<lambda>m xs. if NaN \<in> set xs \<or> PosInf \<in> set xs \<or> NegInf \<in> set xs
                      then Inl ValueError else Inr m),
      decision_function = (\<lambda>m x. case x of Finite v \<Rightarrow> Inr (- 1) | _ \<Rightarrow> Inl ValueError)\<rparr>"

section \<open>Facts about the library operations\<close>

lemma sum_list_squares_zero:
  fixes f :: "real \<Rightarrow> real"
  assumes "sum_list (map (\<lambda>x. (f x)\<^sup>2) xs) = 0" and "x \<in> set xs"
  shows "f x = 0"
  using assms
proof (induction xs)
  case Nil
  then show ?case by simp
next
  case (Cons a xs)
  have nn: "0 \<le> sum_list (map (\<lambda>x. (f x)\<^sup>2) xs)"
    by (rule sum_list_nonneg) auto
  from Cons.prems(1) have "(f a)\<^sup>2 + sum_list (map (\<lambda>x. (f x)\<^sup>2) xs) = 0"
    by simp
  with nn have "(f a)\<^sup>2 = 0" and "sum_list (map (\<lambda>x. (f x)\<^sup>2) xs) = 0"
    by (simp_all add: add_nonneg_eq_0_iff)
  with Cons show ?case by auto
qed

lemma np_std_zero_constant:
  assumes "xs \<noteq> []" and "np_std xs = 0" and "x \<in> set xs"
  shows "x = np_mean xs"
proof -
  from assms(1) have "0 < real (length xs)" by simp
  with assms(2) have "sum_list (map (\<lambda>x. (x - np_mean xs)\<^sup>2) xs) = 0"
    by (simp add: np_std_def)
  from sum_list_squares_zero [OF this assms(3)] show ?thesis by simp
qed

lemma normalized_zero_std:
  assumes "xs \<noteq> []" and "np_std xs = 0"
  shows "map (\<lambda>x. np_true_divide (x - np_mean xs) (np_std xs)) xs = replicate (length xs) NaN"
proof -
  have "np_true_divide (x - np_mean xs) (np_std xs) = NaN" if "x \<in> set xs" for x
    using np_std_zero_constant [OF assms that] assms(2) by (simp add: np_true_divide_def)
  then have "map (\<lambda>x. np_true_divide (x - np_mean xs) (np_std xs)) xs = map (\<lambda>x. NaN) xs"
    by (intro map_cong) simp_all
  then show ?thesis by (simp add: map_replicate_const)
qed

lemma np_mean_replicate: "0 < n \<Longrightarrow> np_mean (replicate n c) = c"
  by (simp add: np_mean_def sum_list_replicate)

lemma np_std_replicate: "0 < n \<Longrightarrow> np_std (replicate n c) = 0"
  by (simp add: np_std_def np_mean_replicate sum_list_replicate map_replicate_const)

lemma pow2_powr: "pow2 e = 2 powr (of_int e)"
  by (simp add: pow2_def powr_real_of_int inverse_eq_divide)

lemma pow2_positive: "0 < pow2 e"
  by (simp add: pow2_def)

text \<open>Rounding a number whose exponent is known.\<close>

lemma fl_normal:
  assumes "pow2 e \<le> \<bar>x\<bar>" and "\<bar>x\<bar> < pow2 (e + 1)"
  shows "fl x = of_int (round_half_even (x * pow2 (52 - e))) * pow2 (e - 52)"
proof -
  have pos: "0 < \<bar>x\<bar>"
    using assms(1) pow2_positive [of e] by linarith
  have "\<lfloor>log 2 \<bar>x\<bar>\<rfloor> = e"
    using assms pos by (simp add: floor_log_eq_powr_iff pow2_powr)
  with pos show ?thesis by (simp add: fl_def)
qed

lemma fl_one_twentieth: "fl (1 / 20) = 7205759403792794 / 2 ^ 57"
  using fl_normal [of "- 5" "1 / 20"]
  by (simp add: pow2_def round_half_even_def)

lemma fl_exact_5: "fl 5 = 5"
  using fl_normal [of 2 5] by (simp add: pow2_def round_half_even_def)

lemma fl_exact_50001: "fl 50001 = 50001"
  using fl_normal [of 15 50001] by (simp add: pow2_def round_half_even_def)

lemma fl_50001_millionths: "fl (50001 / 1000000) = 7205903518980869 / 2 ^ 57"
  using fl_normal [of "- 5" "50001 / 1000000"] by (simp add: pow2_def round_half_even_def)

lemma fl_exact_450000000000001: "fl 450000000000001 = 450000000000001"
  using fl_normal [of 48 450000000000001] by (simp add: pow2_def round_half_even_def)

lemma fl_exact_9000000000000019: "fl 9000000000000019 = 9000000000000019"
  using fl_normal [of 52 9000000000000019] by (simp add: pow2_def round_half_even_def)

lemma fl_exact_9450000000000020: "fl 9450000000000020 = 9450000000000020"
  using fl_normal [of 53 9450000000000020] by (simp add: pow2_def round_half_even_def)

lemma fl_just_above_one_twentieth:
  "fl (450000000000001 / 9000000000000019) = 7205759403792794 / 2 ^ 57"
  using fl_normal [of "- 5" "450000000000001 / 9000000000000019"]
  by (simp add: pow2_def round_half_even_def)



lemma fl_exact_6: "fl 6 = 6"
  using fl_normal [of 2 6] by (simp add: pow2_def round_half_even_def)

lemma fl_three_fiftieths: "fl (3 / 50) = 1080863910568919 / 2 ^ 54"
  using fl_normal [of "- 5" "3 / 50"] by (simp add: pow2_def round_half_even_def)

lemma effective_after_getitem:
  "effective dflt (snd (defaultdict_getitem dflt d k)) k' = effective dflt d k'"
  by (simp add: defaultdict_getitem_def effective_def split: option.splits)

section \<open>Facts about the detectors\<close>

lemma high_volume_rule_present:
  assumes "symbol trade = Some s" and "size_field trade = Some sz"
  shows "high_volume_rule trade hvt =
           (Inr (effective 10000 hvt s < sz), hvt(s \<mapsto> effective 10000 hvt s))"
  using assms
  by (auto simp: high_volume_rule_def defaultdict_getitem_def effective_def
      split: option.splits)

lemma rapid_price_change_zero:
  assumes "symbol trade = Some s" and "price trade = Some p"
    and "history s = Some dq" and "dq \<noteq> []" and "last dq = 0"
  shows "rapid_price_change trade history rpct = (Inl ZeroDivisionError, history, rpct)"
  using assms
  by (simp add: rapid_price_change_def defaultdict_getitem_def)


lemma multiple_of_1000_past_warm_up:
  "n mod 1000 = 0 \<Longrightarrow> 0 < n \<Longrightarrow> \<not> n < (100::nat)"
proof
  assume "n mod 1000 = 0" and "0 < n" and "n < 100"
  then have "n mod 1000 = n" by simp
  with \<open>n mod 1000 = 0\<close> \<open>0 < n\<close> show False by simp
qed

lemma scorer_appends:
  "price trade = Some p \<Longrightarrow>
   fst (snd (isolation_forest_anomaly api trade fit_prices fitted forest)) = fit_prices @ [p]"
  by (simp add: isolation_forest_anomaly_def Let_def split: sum.splits prod.splits)

lemma scorer_no_refit:
  assumes "price trade = Some p" and "length (fit_prices @ [p]) mod 1000 \<noteq> 0"
  shows "snd (snd (isolation_forest_anomaly api trade fit_prices fitted forest)) = (fitted, forest)"
  using assms
  by (simp add: isolation_forest_anomaly_def Let_def split: sum.splits prod.splits)

lemma scorer_refit:
  assumes "price trade = Some p" and "corpus = fit_prices @ [p]"
    and "length corpus mod 1000 = 0"
  shows "isolation_forest_anomaly api trade fit_prices fitted forest =
     (case fit api forest
             (map (\<lambda>x. np_true_divide (x - np_mean corpus) (np_std corpus)) corpus) of
        Inl e \<Rightarrow> (Inl e, corpus, fitted, forest)
      | Inr forest' \<Rightarrow>
          (case decision_function api forest'
                  (np_true_divide (p - np_mean corpus) (np_std corpus)) of
             Inl e \<Rightarrow> (Inl e, corpus, True, forest')
           | Inr score \<Rightarrow> (Inr (score < 0), corpus, True, forest')))"
proof -
  have "\<not> length corpus < 100"
    using assms(2,3) multiple_of_1000_past_warm_up [of "length corpus"] by simp
  then show ?thesis
    using assms
    by (simp add: isolation_forest_anomaly_def Let_def split: sum.splits)
qed

lemma scorer_fitted_permanent:
  "fitted \<Longrightarrow> fst (snd (snd (isolation_forest_anomaly api trade fit_prices fitted forest)))"
  by (simp add: isolation_forest_anomaly_def Let_def split: sum.splits prod.splits option.splits)

lemma scorer_unfitted:
  assumes "price trade = Some p" and "100 \<le> length (fit_prices @ [p])"
    and "length (fit_prices @ [p]) mod 1000 \<noteq> 0" and "\<not> fitted"
  shows "isolation_forest_anomaly api trade fit_prices fitted forest =
           (Inr False, fit_prices @ [p], fitted, forest)"
  using assms
  by (simp add: isolation_forest_anomaly_def Let_def)

section \<open>Facts about the pipeline\<close>

lemma run_detectors_frame:
  "processed_sequence (snd (run_detectors api trade st)) = processed_sequence st"
  "produced (snd (run_detectors api trade st)) = produced st"
  "printed (snd (run_detectors api trade st)) = printed st"
  by (simp_all add: run_detectors_def Let_def split: prod.splits sum.splits)

lemma publish_frame:
  "processed_sequence (publish seq trade labels st) = processed_sequence st"
  "high_volume_threshold (publish seq trade labels st) = high_volume_threshold st"
  "rapid_price_change_threshold (publish seq trade labels st) = rapid_price_change_threshold st"
  "transaction_history (publish seq trade labels st) = transaction_history st"
  "fit_prices_all (publish seq trade labels st) = fit_prices_all st"
  "is_fitted (publish seq trade labels st) = is_fitted st"
  "isolation_forest (publish seq trade labels st) = isolation_forest st"
  by (simp_all add: publish_def Let_def)

lemma process_trade_records_sequence:
  assumes "decode loads raw = Some (JObject trade)" and "sequence trade = Some seq"
  shows "seq \<in> processed_sequence (snd (process_trade loads api raw st))"
proof (cases "seq \<in> processed_sequence st")
  case True
  with assms show ?thesis by (simp add: process_trade_def)
next
  case False
  let ?st0 = "st\<lparr>processed_sequence := insert seq (processed_sequence st)\<rparr>"
  obtain r st3 where rd: "run_detectors api trade ?st0 = (r, st3)"
    by (cases "run_detectors api trade ?st0")
  have "processed_sequence st3 = insert seq (processed_sequence st)"
    using run_detectors_frame(1) [of api trade ?st0] rd by simp
  with assms False rd show ?thesis
    by (simp add: process_trade_def Let_def publish_frame split: sum.splits)
qed

lemma run_detectors_is_fitted:
  assumes "is_fitted st"
  shows "is_fitted (snd (run_detectors api trade st))"
proof -
  obtain r3 fp ft fo where sc:
    "isolation_forest_anomaly api trade (fit_prices_all st) (is_fitted st) (isolation_forest st) =
       (r3, fp, ft, fo)"
    by (metis prod_cases4)
  have "ft"
    using scorer_fitted_permanent [OF assms, of api trade "fit_prices_all st" "isolation_forest st"] sc
    by simp
  with assms sc show ?thesis
    by (auto simp: run_detectors_def Let_def split: prod.splits sum.splits)
qed

lemma process_trade_is_fitted:
  assumes "is_fitted st"
  shows "is_fitted (snd (process_trade loads api raw st))"
proof -
  have rd: "is_fitted (snd (run_detectors api trade (st\<lparr>processed_sequence := P\<rparr>)))"
    for trade P
    using assms by (intro run_detectors_is_fitted) simp
  have step: "is_fitted (snd (case run_detectors api trade (st\<lparr>processed_sequence := P\<rparr>) of
           (r, st3) \<Rightarrow> (case r of Inl e \<Rightarrow> (Inl e, st3)
                        | Inr labels \<Rightarrow> (Inr (), publish seq trade labels st3))))"
    for trade P seq
    using rd [of trade P]
    by (cases "run_detectors api trade (st\<lparr>processed_sequence := P\<rparr>)")
       (auto simp: publish_frame split: sum.splits)
  show ?thesis
    using assms step
    by (simp add: process_trade_def Let_def split: option.splits json_value.splits)
qed

lemma run_detectors_zero_last_price:
  assumes "symbol trade = Some s" and "price trade = Some p" and "size_field trade = Some sz"
    and "transaction_history st s = Some dq" and "dq \<noteq> []" and "last dq = 0"
  shows "run_detectors api trade st =
           (Inl ZeroDivisionError,
            st\<lparr>high_volume_threshold :=
                  (high_volume_threshold st)(s \<mapsto> effective 10000 (high_volume_threshold st) s)\<rparr>)"
  using assms
  by (simp add: run_detectors_def high_volume_rule_present rapid_price_change_zero)

lemma process_trade_duplicate:
  assumes "decode loads raw = Some (JObject trade)" and "sequence trade = Some seq"
    and "seq \<in> processed_sequence st"
  shows "process_trade loads api raw st = (Inr (), st)"
  using assms by (simp add: process_trade_def)

lemma process_trade_seen_grows:
  "processed_sequence st \<subseteq> processed_sequence (snd (process_trade loads api raw st))"
proof (cases "decode loads raw")
  case None
  then show ?thesis by (simp add: process_trade_def)
next
  case (Some j)
  show ?thesis
  proof (cases j)
    case JOther
    with Some show ?thesis by (simp add: process_trade_def)
  next
    case (JObject trade)
    show ?thesis
    proof (cases "sequence trade")
      case None
      with Some JObject show ?thesis by (simp add: process_trade_def)
    next
      case (Some seq)
      from process_trade_records_sequence [OF \<open>decode loads raw = Some j\<close> [unfolded JObject] Some,
          of api st]
      show ?thesis
      proof (cases "seq \<in> processed_sequence st")
        case True
        with \<open>decode loads raw = Some j\<close> JObject Some show ?thesis
          by (simp add: process_trade_def)
      next
        case False
        let ?st0 = "st\<lparr>processed_sequence := insert seq (processed_sequence st)\<rparr>"
        obtain r st3 where rd: "run_detectors api trade ?st0 = (r, st3)"
          by (cases "run_detectors api trade ?st0")
        have "processed_sequence st3 = insert seq (processed_sequence st)"
          using run_detectors_frame(1) [of api trade ?st0] rd by simp
        with \<open>decode loads raw = Some j\<close> JObject Some False rd show ?thesis
          by (cases r) (auto simp: process_trade_def Let_def publish_frame)
      qed
    qed
  qed
qed

lemma process_stream_seen_grows:
  "processed_sequence st \<subseteq> processed_sequence (process_stream loads api raws st)"
proof (induction raws arbitrary: st)
  case Nil
  then show ?case by simp
next
  case (Cons raw raws)
  from process_trade_seen_grows [of st loads api raw]
    Cons.IH [of "snd (process_trade loads api raw st)"]
  show ?case by auto
qed

text \<open>One call adds at most one message, and only one whose key it has just recorded.\<close>

lemma process_trade_produced:
  "produced (snd (process_trade loads api raw st)) = produced st \<or>
   (\<exists>seq v. seq \<notin> processed_sequence st \<and>
      seq \<in> processed_sequence (snd (process_trade loads api raw st)) \<and>
      produced (snd (process_trade loads api raw st)) =
        produced st @ [\<lparr>msg_key = seq, msg_value = v\<rparr>])"
proof (cases "decode loads raw")
  case None
  then show ?thesis by (simp add: process_trade_def)
next
  case (Some j)
  show ?thesis
  proof (cases j)
    case JOther
    with Some show ?thesis by (simp add: process_trade_def)
  next
    case (JObject trade)
    show ?thesis
    proof (cases "sequence trade")
      case None
      with Some JObject show ?thesis by (simp add: process_trade_def)
    next
      case (Some seq)
      show ?thesis
      proof (cases "seq \<in> processed_sequence st")
        case True
        with \<open>decode loads raw = Some j\<close> JObject Some show ?thesis
          by (simp add: process_trade_def)
      next
        case False
        let ?st0 = "st\<lparr>processed_sequence := insert seq (processed_sequence st)\<rparr>"
        obtain r st3 where rd: "run_detectors api trade ?st0 = (r, st3)"
          by (cases "run_detectors api trade ?st0")
        have "produced st3 = produced st"
          and "processed_sequence st3 = insert seq (processed_sequence st)"
          using run_detectors_frame(1,2) [of api trade ?st0] rd by simp_all
        with \<open>decode loads raw = Some j\<close> JObject Some False rd show ?thesis
          by (cases r) (auto simp: process_trade_def Let_def publish_def)
      qed
    qed
  qed
qed

lemma process_trade_emitted:
  "emitted S (snd (process_trade loads api raw st)) \<le>
     emitted S st + (if S \<in> processed_sequence st then 0 else 1)"
  using process_trade_produced [of loads api raw st]
  by (auto simp: emitted_def)

lemma process_trade_emitted_unseen:
  assumes "S \<notin> processed_sequence (snd (process_trade loads api raw st))"
  shows "emitted S (snd (process_trade loads api raw st)) = emitted S st"
proof -
  from process_trade_produced [of loads api raw st]
  consider "produced (snd (process_trade loads api raw st)) = produced st"
    | seq v where "seq \<notin> processed_sequence st"
      and "seq \<in> processed_sequence (snd (process_trade loads api raw st))"
      and "produced (snd (process_trade loads api raw st)) =
             produced st @ [\<lparr>msg_key = seq, msg_value = v\<rparr>]"
    by blast
  then show ?thesis
  proof cases
    case 1
    then show ?thesis by (simp add: emitted_def)
  next
    case 2
    with assms have "seq \<noteq> S" by auto
    with 2 show ?thesis by (simp add: emitted_def)
  qed
qed


lemma process_stream_emitted:
  "emitted S (process_stream loads api raws st) \<le>
     emitted S st + (if S \<in> processed_sequence st then 0 else 1)"
proof (induction raws arbitrary: st)
  case Nil
  then show ?case by simp
next
  case (Cons raw raws)
  let ?st' = "snd (process_trade loads api raw st)"
  note IH = Cons.IH [of ?st']
  show ?case
  proof (cases "S \<in> processed_sequence ?st'")
    case True
    with IH process_trade_emitted [of S loads api raw st] show ?thesis
      by (simp split: if_splits)
  next
    case False
    with process_trade_seen_grows [of st loads api raw] have "S \<notin> processed_sequence st"
      by auto
    with False IH process_trade_emitted_unseen [OF False] show ?thesis
      by simp
  qed
qed

text \<open>The first scenario of the specification's testable properties: seq 1 twice, then
  seq 2 at a price 6% higher; exactly one message comes out, for seq 2.\<close>

lemma duplicate_then_rapid_change_scenario:
  "produced (process_stream sample_loads strict_forest
     [Decoded (JObject (mk_trade 1 ''X'' 100 50)),
      Decoded (JObject (mk_trade 1 ''X'' 100 50)),
      Decoded (JObject (mk_trade 2 ''X'' 106 50))] (init_state ())) =
   [\<lparr>msg_key = 2, msg_value = (mk_trade 2 ''X'' 106 50)\<lparr>anomalies := Some [''Rapid Price Change'']\<rparr>\<rparr>]"
  by (simp add: process_trade_def decode_def mk_trade_def init_state_def run_detectors_def
      high_volume_rule_def rapid_price_change_def isolation_forest_anomaly_def
      defaultdict_getitem_def deque_append_def publish_def Let_def
      fl_exact_6 fl_three_fiftieths fl_one_twentieth)

section \<open>The claims\<close>

text \<open>
  Claim C1. Once an event with sequence \<open>S\<close> has been submitted, whatever that call did
  (returned, or raised after recording \<open>S\<close>) and whatever events the stream brings
  next, a later event with sequence \<open>S\<close> returns normally and leaves the whole state as
  it found it: histories, thresholds, corpus, model and output. Over a whole stream at
  most one message with key \<open>S\<close> is produced, and none once \<open>S\<close> has been seen.
\<close>

theorem duplicate_sequence_dropped:
  assumes "decode loads first = Some (JObject trade)" and "sequence trade = Some S"
    and "decode loads again = Some (JObject trade')" and "sequence trade' = Some S"
  shows "process_trade loads api again
           (process_stream loads api between (snd (process_trade loads api first st))) =
           (Inr (), process_stream loads api between (snd (process_trade loads api first st))) \<and>
         emitted S (process_stream loads api stream st) \<le>
           emitted S st + (if S \<in> processed_sequence st then 0 else 1)"
proof -
  have "S \<in> processed_sequence (snd (process_trade loads api first st))"
    by (rule process_trade_records_sequence [OF assms(1,2)])
  with process_stream_seen_grows [of "snd (process_trade loads api first st)" loads api between]
  have "S \<in> processed_sequence
              (process_stream loads api between (snd (process_trade loads api first st)))"
    by auto
  from process_trade_duplicate [OF assms(3,4) this, of api]
    process_stream_emitted [of S loads api stream st]
  show ?thesis by simp
qed

theorem duplicate_sequence_dropped_witness:
  "fit_prices_all (process_stream sample_loads strict_forest
      [Decoded (JObject (mk_trade 1 ''X'' 100 50)),
       Decoded (JObject (mk_trade 2 ''X'' 100 50)),
       Decoded (JObject (mk_trade 1 ''X'' 200 50))] (init_state ())) = [100, 100] \<and>
   emitted 1 (process_stream sample_loads strict_forest
      [Decoded (JObject (mk_trade 1 ''X'' 100 20000)),
       Decoded (JObject (mk_trade 2 ''X'' 100 50)),
       Decoded (JObject (mk_trade 1 ''X'' 100 20000))] (init_state ())) \<le> 1"
proof -
  have d: "decode sample_loads (Decoded (JObject (mk_trade 1 ''X'' p z))) =
             Some (JObject (mk_trade 1 ''X'' p z))" for p z
    by (simp add: decode_def)
  have s: "sequence (mk_trade 1 ''X'' p z) = Some 1" for p z
    by (simp add: mk_trade_def)
  have two: "fit_prices_all (process_stream sample_loads strict_forest
        [Decoded (JObject (mk_trade 2 ''X'' 100 50))]
        (snd (process_trade sample_loads strict_forest
               (Decoded (JObject (mk_trade 1 ''X'' 100 50))) (init_state ())))) = [100, 100]"
    by (simp add: process_trade_def decode_def mk_trade_def init_state_def run_detectors_def
        high_volume_rule_def rapid_price_change_def isolation_forest_anomaly_def
        defaultdict_getitem_def deque_append_def publish_def Let_def fl_def)
  from duplicate_sequence_dropped [where loads = sample_loads and api = strict_forest
      and first = "Decoded (JObject (mk_trade 1 ''X'' 100 50))"
      and trade = "mk_trade 1 ''X'' 100 50"
      and again = "Decoded (JObject (mk_trade 1 ''X'' 200 50))"
      and trade' = "mk_trade 1 ''X'' 200 50" and S = 1
      and between = "[Decoded (JObject (mk_trade 2 ''X'' 100 50))]" and st = "init_state ()"
      and stream = "[Decoded (JObject (mk_trade 1 ''X'' 100 20000)),
        Decoded (JObject (mk_trade 2 ''X'' 100 50)),
        Decoded (JObject (mk_trade 1 ''X'' 100 20000))]", OF d s d s]
  show ?thesis
    using two by (simp add: init_state_def emitted_def)
qed

text \<open>
  Claim C2, as stated: with a recorded last price of 0 the Rapid-Price-Change rule
  returns false and the pipeline continues. It fails: after a first trade of symbol X at
  price 0, the next trade of X raises \<^verbatim>\<open>ZeroDivisionError\<close> out of
  \<^verbatim>\<open>process_trade\<close>.
\<close>

theorem zero_last_price_raises:
  "fst (process_trade sample_loads strict_forest (Decoded (JObject (mk_trade 2 ''X'' 5 1)))
         (snd (process_trade sample_loads strict_forest
                 (Decoded (JObject (mk_trade 1 ''X'' 0 1))) (init_state ())))) =
     Inl ZeroDivisionError"
  by (simp add: process_trade_def decode_def mk_trade_def init_state_def run_detectors_def
      high_volume_rule_def rapid_price_change_def isolation_forest_anomaly_def
      defaultdict_getitem_def deque_append_def publish_def Let_def)

text \<open>
  Claim C2, amended: with a recorded last price of 0 the rule raises
  \<^verbatim>\<open>ZeroDivisionError\<close> before it records the current price, leaving the histories and
  the thresholds as they were; \<^verbatim>\<open>process_trade\<close> lets the error through, having recorded
  the sequence and looked up the volume threshold, with no price added to the history or
  the corpus and nothing produced.
\<close>

theorem zero_last_price_propagates:
  assumes "decode loads raw = Some (JObject trade)"
    and "sequence trade = Some seq" and "symbol trade = Some s"
    and "price trade = Some p" and "size_field trade = Some sz"
    and "seq \<notin> processed_sequence st"
    and "transaction_history st s = Some dq" and "dq \<noteq> []" and "last dq = 0"
  shows "rapid_price_change trade (transaction_history st) (rapid_price_change_threshold st) =
           (Inl ZeroDivisionError, transaction_history st, rapid_price_change_threshold st) \<and>
         process_trade loads api raw st =
           (Inl ZeroDivisionError,
            st\<lparr>processed_sequence := insert seq (processed_sequence st),
               high_volume_threshold :=
                 (high_volume_threshold st)(s \<mapsto> effective 10000 (high_volume_threshold st) s)\<rparr>)"
  using assms
  by (simp add: rapid_price_change_zero process_trade_def run_detectors_zero_last_price)

theorem zero_last_price_propagates_witness:
  "process_trade sample_loads strict_forest (Decoded (JObject (mk_trade 2 ''X'' 5 1)))
     ((init_state ())\<lparr>transaction_history := [''X'' \<mapsto> [0]]\<rparr>) =
     (Inl ZeroDivisionError,
      (init_state ())\<lparr>transaction_history := [''X'' \<mapsto> [0]],
                       processed_sequence := {2},
                       high_volume_threshold := [''X'' \<mapsto> 10000]\<rparr>)"
  using zero_last_price_propagates [of sample_loads "Decoded (JObject (mk_trade 2 ''X'' 5 1))"
      "mk_trade 2 ''X'' 5 1" 2 "''X''" 5 1
      "(init_state ())\<lparr>transaction_history := [''X'' \<mapsto> [0]]\<rparr>" "[0]" strict_forest]
  by (simp add: decode_def mk_trade_def init_state_def effective_def)

text \<open>
  Claim C3, as stated: on a corpus of zero standard deviation the scorer returns
  "not anomalous" without dividing by it and without an error. It fails: the scorer has no
  such guard. On the 1000th sample of a constant corpus it normalises with the zero
  deviation and hands the result to \<open>fit\<close>; with an estimator that refuses non-finite
  input, the error comes out of the scorer.
\<close>

theorem constant_corpus_refit_raises:
  "fst (isolation_forest_anomaly strict_forest (mk_trade 1000 ''X'' 100 50)
         (replicate 999 100) False ()) = Inl ValueError"
proof -
  have corpus: "replicate 999 (100::real) @ [100] = replicate 1000 100"
    by (simp add: replicate_append_same flip: replicate_Suc)
  have "map (\<lambda>x. np_true_divide (x - np_mean (replicate 1000 100))
               (np_std (replicate 1000 100))) (replicate 1000 (100::real)) =
          replicate 1000 NaN"
    using normalized_zero_std [of "replicate 1000 (100::real)"]
    by (simp add: np_std_replicate)
  then show ?thesis
    using scorer_refit [of "mk_trade 1000 ''X'' 100 50" 100 "replicate 1000 100"
        "replicate 999 100" strict_forest False "()"]
    by (simp add: corpus mk_trade_def strict_forest_def)
qed

text \<open>
  Claim C3, amended: on a corpus of at least 100 samples with zero standard deviation the
  scorer performs the normalisation all the same, which yields \<^verbatim>\<open>nan\<close> for every
  sample. It returns "not anomalous" when no model has been fitted and the size is not a
  multiple of 1000. At a multiple of 1000 the \<^verbatim>\<open>nan\<close> column goes to \<open>fit\<close>, and once
  a model is fitted the \<^verbatim>\<open>nan\<close> sample goes to \<open>decision_function\<close>; what these do
  with it, a score or an exception, is the scorer's outcome.
\<close>

theorem zero_std_reaches_the_forest:
  assumes "price trade = Some p" and "corpus = fit_prices @ [p]"
    and "100 \<le> length corpus" and "np_std corpus = 0"
  shows "isolation_forest_anomaly api trade fit_prices fitted forest =
     (if length corpus mod 1000 = 0 then
        (case fit api forest (replicate (length corpus) NaN) of
           Inl e \<Rightarrow> (Inl e, corpus, fitted, forest)
         | Inr forest' \<Rightarrow>
             (case decision_function api forest' NaN of
                Inl e \<Rightarrow> (Inl e, corpus, True, forest')
              | Inr score \<Rightarrow> (Inr (score < 0), corpus, True, forest')))
      else if fitted then
        (case decision_function api forest NaN of
           Inl e \<Rightarrow> (Inl e, corpus, fitted, forest)
         | Inr score \<Rightarrow> (Inr (score < 0), corpus, fitted, forest))
      else (Inr False, corpus, fitted, forest))"
proof -
  have ne: "corpus \<noteq> []" using assms(2) by simp
  have p: "p = np_mean corpus"
    using np_std_zero_constant [OF ne assms(4), of p] assms(2) by simp
  have cur: "np_true_divide (p - np_mean corpus) (np_std corpus) = NaN"
    using p assms(4) by (simp add: np_true_divide_def)
  have len: "\<not> length fit_prices + 1 < 100" "\<not> Suc (length fit_prices) < 100"
    using assms(2,3) by simp_all
  show ?thesis
    using assms(1) len cur normalized_zero_std [OF ne assms(4)]
    unfolding isolation_forest_anomaly_def assms(2) [symmetric] Let_def
    by (simp add: assms(2) split: sum.splits)
qed

theorem zero_std_reaches_the_forest_witness:
  "isolation_forest_anomaly strict_forest (mk_trade 100 ''X'' 7 50) (replicate 99 7) False () =
     (Inr False, replicate 99 7 @ [7], False, ()) \<and>
   isolation_forest_anomaly strict_forest (mk_trade 100 ''X'' 7 50) (replicate 99 7) True () =
     (Inl ValueError, replicate 99 7 @ [7], True, ())"
proof -
  have corpus: "replicate 99 (7::real) @ [7] = replicate 100 7"
    by (simp add: replicate_append_same flip: replicate_Suc)
  have p: "price (mk_trade 100 ''X'' 7 50) = Some 7"
    by (simp add: mk_trade_def)
  have len: "100 \<le> length (replicate 99 (7::real) @ [7])"
    by simp
  have std: "np_std (replicate 99 (7::real) @ [7]) = 0"
    by (simp add: corpus np_std_replicate)
  show ?thesis
    using zero_std_reaches_the_forest [OF p refl len std, of strict_forest False "()"]
      zero_std_reaches_the_forest [OF p refl len std, of strict_forest True "()"]
    by (simp add: strict_forest_def)
qed

text \<open>
  Claim C4, as stated: every payload that does not decode to a trade record with the four
  fields is dropped without state change and without an error reaching the caller. It
  fails for payloads that decode but lack fields: a dict holding only a sequence has its
  sequence recorded, and then the \<^verbatim>\<open>KeyError\<close> of the first missing field leaves
  \<^verbatim>\<open>process_trade\<close>; a JSON text that decodes to a list raises \<^verbatim>\<open>TypeError\<close>.
\<close>

theorem missing_fields_raise:
  "process_trade sample_loads strict_forest (Decoded (JObject (only_sequence 1)))
     (init_state ()) =
     (Inl (KeyError ''size''), (init_state ())\<lparr>processed_sequence := {1}\<rparr>) \<and>
   fst (process_trade sample_loads strict_forest (Str ''[]'') (init_state ())) = Inl TypeError"
  by (simp add: process_trade_def decode_def only_sequence_def sample_loads_def
      init_state_def run_detectors_def high_volume_rule_def)

text \<open>
  Claim C4, amended: a text payload that \<^verbatim>\<open>json.loads\<close> cannot parse is dropped:
  \<^verbatim>\<open>process_trade\<close> returns normally, the only effect is the printed failure line, and
  nothing is produced.
\<close>

theorem unparseable_text_dropped:
  assumes "loads s = None"
  shows "process_trade loads api (Str s) st =
           (Inr (), st\<lparr>printed := printed st @ [FailedToParse (Str s)]\<rparr>)"
  using assms by (simp add: process_trade_def decode_def)

theorem unparseable_text_dropped_witness:
  "process_trade sample_loads strict_forest (Str ''not json'') (init_state ()) =
     (Inr (), (init_state ())\<lparr>printed := [FailedToParse (Str ''not json'')]\<rparr>)"
  using unparseable_text_dropped [of sample_loads "''not json''" strict_forest "init_state ()"]
  by (simp add: sample_loads_def init_state_def)

text \<open>
  Claim C5. While the corpus, the current price included, has fewer than 100 samples the
  scorer returns "not anomalous" whatever the price: it appends the price and touches
  neither the model nor the fitted flag.
\<close>

theorem warm_up_gating:
  assumes "price trade = Some p" and "length (fit_prices @ [p]) < 100"
  shows "isolation_forest_anomaly api trade fit_prices fitted forest =
           (Inr False, fit_prices @ [p], fitted, forest)"
  using assms by (simp add: isolation_forest_anomaly_def)

theorem warm_up_gating_witness:
  "isolation_forest_anomaly strict_forest (mk_trade 99 ''X'' 1000000 50) (replicate 98 1) True () =
     (Inr False, replicate 98 1 @ [1000000], True, ())"
  using warm_up_gating [of "mk_trade 99 ''X'' 1000000 50" 1000000 "replicate 98 1"
      strict_forest True "()"]
  by (simp add: mk_trade_def)

text \<open>
  Claim C6. With \<open>corpus\<close> the samples after the append: when its size is not a multiple
  of 1000 the model and the fitted flag are left alone; when it is, the size is at least
  100 and the model becomes what \<open>fit\<close> returns on the normalised corpus, with the flag
  set (if \<open>fit\<close> raises, its error is the outcome and both stay). The flag, once set, stays
  set, across the scorer and across \<^verbatim>\<open>process_trade\<close>. With at least 100 samples, no
  model fitted and no refit due, the scorer returns "not anomalous".
\<close>

theorem refit_cadence:
  assumes "price trade = Some p" and "corpus = fit_prices @ [p]"
  shows "(case isolation_forest_anomaly api trade fit_prices fitted forest of
            (r, corpus', fitted', forest') \<Rightarrow>
              corpus' = corpus \<and>
              (length corpus mod 1000 \<noteq> 0 \<longrightarrow> forest' = forest \<and> fitted' = fitted) \<and>
              (length corpus mod 1000 = 0 \<longrightarrow>
                 100 \<le> length corpus \<and>
                 (case fit api forest
                         (map (\<lambda>x. np_true_divide (x - np_mean corpus) (np_std corpus)) corpus) of
                    Inl e \<Rightarrow> r = Inl e \<and> forest' = forest \<and> fitted' = fitted
                  | Inr m \<Rightarrow> forest' = m \<and> fitted')) \<and>
              (fitted \<longrightarrow> fitted') \<and>
              (100 \<le> length corpus \<and> length corpus mod 1000 \<noteq> 0 \<and> \<not> fitted \<longrightarrow>
                 r = Inr False)) \<and>
         (is_fitted st \<longrightarrow> is_fitted (snd (process_trade loads api raw st)))"
proof -
  obtain r corpus' fitted' forest' where res:
    "isolation_forest_anomaly api trade fit_prices fitted forest = (r, corpus', fitted', forest')"
    by (metis prod_cases4)
  have a: "corpus' = corpus"
    using scorer_appends [OF assms(1), of api fit_prices fitted forest] res assms(2) by simp
  have b: "forest' = forest \<and> fitted' = fitted" if "length corpus mod 1000 \<noteq> 0"
    using scorer_no_refit [OF assms(1), of fit_prices api fitted forest] that res assms(2)
    by simp
  have c: "100 \<le> length corpus \<and>
           (case fit api forest
                   (map (\<lambda>x. np_true_divide (x - np_mean corpus) (np_std corpus)) corpus) of
              Inl e \<Rightarrow> r = Inl e \<and> forest' = forest \<and> fitted' = fitted
            | Inr m \<Rightarrow> forest' = m \<and> fitted')" if m: "length corpus mod 1000 = 0"
  proof -
    have "\<not> length corpus < 100"
      using multiple_of_1000_past_warm_up [OF m] assms(2) by simp
    then show ?thesis
      using scorer_refit [OF assms(1,2) m, of api fitted forest] res
      by (auto split: sum.splits)
  qed
  have d: "fitted'" if "fitted"
    using scorer_fitted_permanent [OF that, of api trade fit_prices forest] res by simp
  have e: "r = Inr False"
    if "100 \<le> length corpus" and "length corpus mod 1000 \<noteq> 0" and "\<not> fitted"
    using scorer_unfitted [OF assms(1), of fit_prices fitted api forest] that res assms(2)
    by simp
  show ?thesis
    using a b c d e process_trade_is_fitted [of st loads api raw]
    by (simp add: res)
qed

theorem refit_cadence_witness:
  "isolation_forest_anomaly strict_forest (mk_trade 100 ''X'' 7 50) (replicate 99 7) False () =
     (Inr False, replicate 99 7 @ [7], False, ()) \<and>
   snd (snd (isolation_forest_anomaly
      \<lparr>fit = (\<lambda>m xs. Inr (Suc m)), decision_function = (\<lambda>m x. Inr 1)\<rparr>
      (mk_trade 1000 ''X'' 7 50) (replicate 999 7) False 0)) = (True, Suc 0)"
  using refit_cadence [where trade = "mk_trade 100 ''X'' 7 50" and p = 7
        and fit_prices = "replicate 99 7" and corpus = "replicate 99 7 @ [7]"
        and api = strict_forest and fitted = False and forest = "()"
        and st = "init_state ()" and loads = sample_loads and raw = "Str []"]
    refit_cadence [where trade = "mk_trade 1000 ''X'' 7 50" and p = 7
        and fit_prices = "replicate 999 7" and corpus = "replicate 999 7 @ [7]"
        and api = "\<lparr>fit = (\<lambda>m xs. Inr (Suc m)), decision_function = (\<lambda>m x. Inr 1)\<rparr>"
        and fitted = False and forest = 0
        and st = "init_state 0" and loads = sample_loads and raw = "Str []"]
  by (auto simp: mk_trade_def split: prod.splits)

text \<open>
  Claim C7. The first trade of a symbol, one whose history has no entry or an empty one,
  never fires the Rapid-Price-Change rule: the rule returns false, and the history of the
  symbol becomes the one current price; the thresholds are not touched.
\<close>

theorem first_sighting_immunity:
  assumes "symbol trade = Some s" and "price trade = Some p"
    and "history s = None \<or> history s = Some []"
  shows "rapid_price_change trade history rpct = (Inr False, history(s \<mapsto> [p]), rpct)"
  using assms
  by (auto simp: rapid_price_change_def defaultdict_getitem_def deque_append_def)

theorem first_sighting_immunity_witness:
  "rapid_price_change (mk_trade 1 ''X'' 1000000000 50) Map.empty Map.empty =
     (Inr False, [''X'' \<mapsto> [1000000000]], Map.empty)"
  using first_sighting_immunity [of "mk_trade 1 ''X'' 1000000000 50" "''X''" 1000000000
      Map.empty Map.empty]
  by (simp add: mk_trade_def)

text \<open>
  Claim C8, as stated: any relative change strictly larger than 5% fires the
  Rapid-Price-Change rule. It fails: the rule compares the quotient as rounded to a double
  with the double \<^verbatim>\<open>0.05\<close>, which lies above 1/20. From a last price of
  9000000000000019 to 9450000000000020 (both are doubles) the change is more than 1/20,
  the rounded quotient is the double \<^verbatim>\<open>0.05\<close> itself, and the rule does not fire.
\<close>

theorem change_above_five_percent_not_fired:
  "fl 9000000000000019 = 9000000000000019 \<and>
   fl 9450000000000020 = 9450000000000020 \<and>
   (1 / 20 :: real) < \<bar>(9450000000000020 - 9000000000000019) / 9000000000000019\<bar> \<and>
   fst (rapid_price_change (mk_trade 2 ''X'' 9450000000000020 1)
          [''X'' \<mapsto> [9000000000000019]] Map.empty) = Inr False"
  by (simp add: rapid_price_change_def mk_trade_def defaultdict_getitem_def Let_def
      fl_exact_9000000000000019 fl_exact_9450000000000020
      fl_exact_450000000000001 fl_just_above_one_twentieth fl_one_twentieth)

text \<open>
  Claim C8, amended: both rules compare strictly, on the values the code computes.
  High-Volume fires exactly when the size is greater than the symbol's volume threshold
  (10000 unless configured), so not at a size equal to it. With a non-zero last price,
  Rapid-Price-Change fires exactly when the relative change as computed in double
  precision (the rounded difference divided by the last price, rounded) is greater than
  the symbol's price-change threshold (the double \<^verbatim>\<open>0.05\<close> unless configured), so not
  when the computed change equals it: a move from 100 to 105 does not fire, one from
  1000000 to 1050001 (5.0001%) does.
\<close>

theorem thresholds_are_strict:
  assumes "symbol trade = Some s" and "size_field trade = Some sz" and "price trade = Some p"
    and "history s = Some dq" and "dq \<noteq> []" and "last dq \<noteq> 0"
  shows "fst (high_volume_rule trade hvt) = Inr (effective 10000 hvt s < sz) \<and>
         fst (rapid_price_change trade history rpct) =
           Inr (effective (fl 0.05) rpct s < \<bar>fl (fl (p - last dq) / last dq)\<bar>)"
  using assms
  by (simp add: high_volume_rule_def rapid_price_change_def defaultdict_getitem_def
      effective_def Let_def split: option.splits)

theorem thresholds_are_strict_witness:
  "fst (high_volume_rule (mk_trade 1 ''X'' 105 10000) Map.empty) = Inr False \<and>
   fst (rapid_price_change (mk_trade 1 ''X'' 105 10000) [''X'' \<mapsto> [100]] Map.empty) = Inr False \<and>
   fst (high_volume_rule (mk_trade 2 ''X'' 1050001 10001) Map.empty) = Inr True \<and>
   fst (rapid_price_change (mk_trade 2 ''X'' 1050001 10001) [''X'' \<mapsto> [1000000]] Map.empty) =
     Inr True"
  using thresholds_are_strict [of "mk_trade 1 ''X'' 105 10000" "''X''" 10000 105
      "[''X'' \<mapsto> [100]]" "[100]" Map.empty Map.empty]
    thresholds_are_strict [of "mk_trade 2 ''X'' 1050001 10001" "''X''" 10001 1050001
      "[''X'' \<mapsto> [1000000]]" "[1000000]" Map.empty Map.empty]
  by (simp add: mk_trade_def effective_def fl_exact_5 fl_one_twentieth fl_exact_50001
      fl_50001_millionths)

text \<open>
  Claim C9, as stated: evaluating the High-Volume rule leaves the threshold map exactly as
  it was. It fails: the map is a \<^verbatim>\<open>defaultdict\<close>, and looking up a symbol it does not
  hold inserts that symbol with the default 10000.
\<close>

theorem high_volume_rule_inserts_default:
  "snd (high_volume_rule (mk_trade 3 ''Y'' 50 20000) Map.empty) ''Y'' = Some 10000 \<and>
   (Map.empty :: string \<rightharpoonup> real) ''Y'' = None"
  by (simp add: high_volume_rule_def mk_trade_def defaultdict_getitem_def)

text \<open>
  Claim C9, amended: the High-Volume rule receives the trade and the threshold map only,
  so the price histories, the corpus and the seen sequences are out of its reach. It
  leaves the threshold of every symbol as it was; the map itself is either unchanged or
  has gained the entry of the trade's symbol, at the default 10000.
\<close>

theorem high_volume_rule_frame:
  "(\<forall>k. effective 10000 (snd (high_volume_rule trade hvt)) k = effective 10000 hvt k) \<and>
   (snd (high_volume_rule trade hvt) = hvt \<or>
    (\<exists>s. symbol trade = Some s \<and> hvt s = None \<and>
         snd (high_volume_rule trade hvt) = hvt(s \<mapsto> 10000)))"
  by (auto simp: high_volume_rule_def defaultdict_getitem_def effective_def
      split: option.splits if_splits)

theorem high_volume_rule_frame_witness:
  "effective 10000 (snd (high_volume_rule (mk_trade 3 ''Y'' 50 20000) [''X'' \<mapsto> 500])) ''X'' = 500 \<and>
   effective 10000 (snd (high_volume_rule (mk_trade 3 ''Y'' 50 20000) [''X'' \<mapsto> 500])) ''Y'' = 10000"
  using high_volume_rule_frame [of "mk_trade 3 ''Y'' 50 20000" "[''X'' \<mapsto> 500]"]
  by (simp add: effective_def)



end
